theory Spec2Isabelle
  imports Complex_Main "HOL-Library.Word"
begin

section \<open>JavaScript values\<close>

text \<open>
  A JavaScript string is a sequence of 16-bit UTF-16 code units; nothing forces
  surrogate code units to come in pairs.  \<open>js\<close> embeds an ASCII (Latin-1) literal of
  the source text, one code unit per character.
\<close>

type_synonym jsstring = "16 word list"

definition js :: "string \<Rightarrow> jsstring" where
  "js s = map of_char s"

text \<open>
  Numbers are passed through by the program and never computed with: the finite
  doubles are represented by their rational value, the three others by name.
\<close>

datatype number = Finite rat | NaN | PosInfinity | NegInfinity

text \<open>
  The values that occur in the program: \<open>undefined\<close>, \<open>null\<close>, booleans, numbers, strings,
  arrays and plain objects.  An object lists its own properties in insertion order, with
  distinct keys; a property is looked up with \<open>map_of\<close>.
\<close>

datatype jsval =
    Undefined
  | Null
  | Bool bool
  | Num number
  | Str jsstring
  | Arr "jsval list"
  | Obj "(jsstring \<times> jsval) list"

text \<open>
  What the program can throw: \<open>new Error(message)\<close>, the \<open>TypeError\<close> of a property read
  on \<open>undefined\<close> or \<open>null\<close> (and of a rejected \<open>fetch\<close>), and the \<open>SyntaxError\<close> of
  \<open>JSON.parse\<close> and \<open>response.json()\<close>.
\<close>

datatype error = Error jsstring | TypeError | SyntaxError

definition bind_result :: "error + 'a \<Rightarrow> ('a \<Rightarrow> error + 'b) \<Rightarrow> error + 'b" where
  "bind_result m f = (case m of Inl e \<Rightarrow> Inl e | Inr x \<Rightarrow> f x)"

subsection \<open>Number to string\<close>

text \<open>
  \<open>${response.status}\<close> converts a number to a string; on a non-negative integer that
  is its decimal numeral without leading zeros.
\<close>

definition digit :: "nat \<Rightarrow> 16 word" where
  "digit d = of_nat (48 + d)"

fun num_to_string :: "nat \<Rightarrow> jsstring" where
  "num_to_string n =
     (if n < 10 then [digit n] else num_to_string (n div 10) @ [digit (n mod 10)])"

declare num_to_string.simps [simp del]

subsection \<open>Property reads\<close>

text \<open>
  \<open>field v k\<close> is the read \<open>v.k\<close> for a property name \<open>k\<close> that no prototype and no
  built-in own property of arrays, strings, numbers or booleans defines; this holds for
  every name the program reads (\<open>choices\<close>, \<open>message\<close>, \<open>content\<close>, \<open>tool_calls\<close>,
  \<open>function\<close>, \<open>arguments\<close>, \<open>response\<close>, \<open>candidates\<close>, \<open>parts\<close>, \<open>text\<close>).  Reading a
  property of \<open>undefined\<close> or \<open>null\<close> throws; a missing property reads as \<open>undefined\<close>.
\<close>

fun field :: "jsval \<Rightarrow> jsstring \<Rightarrow> error + jsval" where
  "field Undefined k = Inl TypeError"
| "field Null k = Inl TypeError"
| "field (Obj ps) k = (case map_of ps k of Some v \<Rightarrow> Inr v | None \<Rightarrow> Inr Undefined)"
| "field (Bool b) k = Inr Undefined"
| "field (Num n) k = Inr Undefined"
| "field (Str s) k = Inr Undefined"
| "field (Arr xs) k = Inr Undefined"

text \<open>
  \<open>index v i\<close> is the read \<open>v[i]\<close>: an element of an array, a one-unit string of a
  string, the property named by the decimal numeral of an object, and \<open>undefined\<close>
  out of range.
\<close>

fun index :: "jsval \<Rightarrow> nat \<Rightarrow> error + jsval" where
  "index Undefined i = Inl TypeError"
| "index Null i = Inl TypeError"
| "index (Arr xs) i = (if i < length xs then Inr (xs ! i) else Inr Undefined)"
| "index (Str s) i = (if i < length s then Inr (Str [s ! i]) else Inr Undefined)"
| "index (Obj ps) i = field (Obj ps) (num_to_string i)"
| "index (Bool b) i = Inr Undefined"
| "index (Num n) i = Inr Undefined"

datatype accessor = Field jsstring | Index nat

fun access :: "jsval \<Rightarrow> accessor \<Rightarrow> error + jsval" where
  "access v (Field k) = field v k"
| "access v (Index i) = index v i"

text \<open>A chain of reads such as \<open>data.choices[0].message\<close>, evaluated left to right.\<close>

fun path :: "jsval \<Rightarrow> accessor list \<Rightarrow> error + jsval" where
  "path v [] = Inr v"
| "path v (a # as) = bind_result (access v a) (\<lambda>w. path w as)"

subsection \<open>\<open>JSON.stringify\<close>\<close>

text \<open>
  The request body is the text \<open>JSON.stringify\<close> produces.  It is represented by the
  JSON document that text denotes: a property whose value is \<open>undefined\<close> is left out,
  an \<open>undefined\<close> array element and a number that is not finite become \<open>null\<close>, and
  \<open>JSON.stringify(undefined)\<close> is \<open>undefined\<close>.
\<close>

fun JSON_stringify :: "jsval \<Rightarrow> jsval"
  and stringify_elements :: "jsval list \<Rightarrow> jsval list"
  and stringify_properties :: "(jsstring \<times> jsval) list \<Rightarrow> (jsstring \<times> jsval) list" where
  "JSON_stringify Undefined = Undefined"
| "JSON_stringify Null = Null"
| "JSON_stringify (Bool b) = Bool b"
| "JSON_stringify (Num n) = (case n of Finite q \<Rightarrow> Num (Finite q) | _ \<Rightarrow> Null)"
| "JSON_stringify (Str s) = Str s"
| "JSON_stringify (Arr xs) = Arr (stringify_elements xs)"
| "JSON_stringify (Obj ps) = Obj (stringify_properties ps)"
| "stringify_elements [] = []"
| "stringify_elements (x # xs) =
     (if x = Undefined then Null else JSON_stringify x) # stringify_elements xs"
| "stringify_properties [] = []"
| "stringify_properties ((k, v) # ps) =
     (if v = Undefined then stringify_properties ps
      else (k, JSON_stringify v) # stringify_properties ps)"

subsection \<open>\<open>Array.prototype.join\<close>\<close>

text \<open>
  The loop of \<open>join\<close>: the separator goes before every element but the first.
\<close>

fun join_loop :: "jsstring \<Rightarrow> jsstring list \<Rightarrow> nat \<Rightarrow> jsstring \<Rightarrow> jsstring" where
  "join_loop sep [] k R = R"
| "join_loop sep (x # xs) k R =
     join_loop sep xs (Suc k) ((if 0 < k then R @ sep else R) @ x)"

definition join :: "jsstring \<Rightarrow> jsstring list \<Rightarrow> jsstring" where
  "join sep xs = join_loop sep xs 0 []"

subsection \<open>\<open>Buffer.from(s).toString("base64")\<close>\<close>

text \<open>
  \<open>Buffer.from\<close> of a string is its UTF-8 encoding.  A high surrogate followed by a low
  surrogate is one code point of four bytes; any other surrogate code unit is replaced
  by U+FFFD, whose encoding is \<open>EF BF BD\<close>.
\<close>

definition is_high :: "16 word \<Rightarrow> bool" where
  "is_high u \<longleftrightarrow> 0xD800 \<le> unat u \<and> unat u \<le> 0xDBFF"

definition is_low :: "16 word \<Rightarrow> bool" where
  "is_low u \<longleftrightarrow> 0xDC00 \<le> unat u \<and> unat u \<le> 0xDFFF"

definition code_point :: "16 word \<Rightarrow> 16 word \<Rightarrow> nat" where
  "code_point u v = 0x10000 + (unat u - 0xD800) * 0x400 + (unat v - 0xDC00)"

definition utf8_code_point :: "nat \<Rightarrow> 8 word list" where
  "utf8_code_point c =
     (if c < 0x80 then [of_nat c]
      else if c < 0x800 then [of_nat (0xC0 + c div 64), of_nat (0x80 + c mod 64)]
      else if c < 0x10000 then
        [of_nat (0xE0 + c div 4096), of_nat (0x80 + c div 64 mod 64), of_nat (0x80 + c mod 64)]
      else
        [of_nat (0xF0 + c div 262144), of_nat (0x80 + c div 4096 mod 64),
         of_nat (0x80 + c div 64 mod 64), of_nat (0x80 + c mod 64)])"

definition replacement :: "8 word list" where
  "replacement = [0xEF, 0xBF, 0xBD]"

fun utf8_encode :: "jsstring \<Rightarrow> 8 word list" where
  "utf8_encode [] = []"
| "utf8_encode [u] =
     (if is_high u \<or> is_low u then replacement else utf8_code_point (unat u))"
| "utf8_encode (u # v # us) =
     (if is_high u \<and> is_low v then utf8_code_point (code_point u v) @ utf8_encode us
      else if is_high u \<or> is_low u then replacement @ utf8_encode (v # us)
      else utf8_code_point (unat u) @ utf8_encode (v # us))"

text \<open>
  Base64 (RFC 4648, with padding): three bytes become four characters of the alphabet
  \<open>A-Z a-z 0-9 + /\<close>, each standing for six bits.
\<close>

definition base64_char :: "nat \<Rightarrow> 16 word" where
  "base64_char i =
     (if i < 26 then of_nat (65 + i)
      else if i < 52 then of_nat (97 + (i - 26))
      else if i < 62 then of_nat (48 + (i - 52))
      else if i = 62 then 43
      else 47)"

definition pad :: "16 word" where
  "pad = 61"

fun base64 :: "8 word list \<Rightarrow> jsstring" where
  "base64 [] = []"
| "base64 [a] =
     [base64_char (unat a div 4), base64_char (unat a mod 4 * 16), pad, pad]"
| "base64 [a, b] =
     [base64_char (unat a div 4), base64_char (unat a mod 4 * 16 + unat b div 16),
      base64_char (unat b mod 16 * 4), pad]"
| "base64 (a # b # c # bs) =
     [base64_char (unat a div 4), base64_char (unat a mod 4 * 16 + unat b div 16),
      base64_char (unat b mod 16 * 4 + unat c div 64), base64_char (unat c mod 64)]
     @ base64 bs"

definition Buffer_from_toString_base64 :: "jsstring \<Rightarrow> jsstring" where
  "Buffer_from_toString_base64 s = base64 (utf8_encode s)"

section \<open>The data of a call\<close>

record message =
  role :: jsstring
  content :: jsstring

text \<open>
  \<open>LLMParams\<close> as the JSDoc type and the README declare it.  An optional property that
  the caller leaves out reads as \<open>undefined\<close> and is \<open>None\<close> here.
\<close>

record LLMParams =
  provider :: jsstring
  modelName :: jsstring
  apiKey :: jsstring
  messages :: "message list"
  temperature :: "number option"
  user :: "jsstring option"
  tools :: "jsval list option"
  response_format :: "jsval option"

definition message_value :: "message \<Rightarrow> jsval" where
  "message_value m = Obj [(js ''role'', Str (role m)), (js ''content'', Str (content m))]"

definition optional :: "('a \<Rightarrow> jsval) \<Rightarrow> 'a option \<Rightarrow> jsval" where
  "optional f x = (case x of None \<Rightarrow> Undefined | Some y \<Rightarrow> f y)"

text \<open>The arguments of one \<open>fetch\<close>: the URL, and the \<open>method\<close>, \<open>headers\<close> and \<open>body\<close> of its
  options.\<close>

record http_request =
  url :: jsstring
  http_method :: jsstring
  headers :: "(jsstring \<times> jsstring) list"
  body :: jsval

text \<open>
  What the program reads of a \<open>Response\<close>: \<open>status\<close>, \<open>statusText\<close> and the outcome of
  \<open>response.json()\<close>.  By the Fetch standard \<open>response.ok\<close> is true exactly for a status
  from 200 to 299.
\<close>

record response =
  status :: nat
  statusText :: jsstring
  json :: "error + jsval"

definition ok :: "response \<Rightarrow> bool" where
  "ok r \<longleftrightarrow> 200 \<le> status r \<and> status r \<le> 299"

text \<open>
  The two things the program asks of its environment: the answer of the network to a
  request (a rejected \<open>fetch\<close> is \<open>Inl\<close>) and \<open>JSON.parse\<close>, which the runtime applies to
  the string conversion of its argument.
\<close>

record runtime =
  fetch :: "http_request \<Rightarrow> error + response"
  JSON_parse :: "jsval \<Rightarrow> error + jsval"

text \<open>
  A call returns the requests it has sent, in order, and either the error it throws or
  the value it resolves to.
\<close>

type_synonym outcome = "http_request list \<times> (error + jsval)"

section \<open>The adapters and the router\<close>

subsection \<open>\<open>callOpenAI\<close>\<close>

definition callOpenAI_postData :: "LLMParams \<Rightarrow> jsval" where
  "callOpenAI_postData params =
     JSON_stringify (Obj
       [(js ''model'', Str (modelName params)),
        (js ''messages'', Arr (map message_value (messages params))),
        (js ''tools'', optional Arr (tools params)),
        (js ''response_format'', optional id (response_format params)),
        (js ''temperature'', optional Num (temperature params)),
        (js ''user'',
           Str (Buffer_from_toString_base64 (case user params of None \<Rightarrow> [] | Some u \<Rightarrow> u)))])"

definition callOpenAI_request :: "LLMParams \<Rightarrow> http_request" where
  "callOpenAI_request params =
     \<lparr>url = js ''https://api.openai.com/v1/chat/completions'',
      http_method = js ''POST'',
      headers = [(js ''Content-Type'', js ''application/json''),
                 (js ''Authorization'', apiKey params)],
      body = callOpenAI_postData params\<rparr>"

definition content_path :: "accessor list" where
  "content_path = [Field (js ''choices''), Index 0, Field (js ''message''), Field (js ''content'')]"

definition arguments_path :: "accessor list" where
  "arguments_path =
     [Field (js ''choices''), Index 0, Field (js ''message''), Field (js ''tool_calls''), Index 0,
      Field (js ''function''), Field (js ''arguments'')]"

text \<open>Lines 67 to 74: what \<open>callOpenAI\<close> returns from the parsed body \<open>data\<close>.\<close>

definition callOpenAI_result :: "runtime \<Rightarrow> jsval \<Rightarrow> error + jsval" where
  "callOpenAI_result rt data =
     bind_result (path data content_path) (\<lambda>c.
       if c \<noteq> Null then path data content_path
       else bind_result (path data arguments_path) (\<lambda>a.
         if a \<noteq> Null then
           bind_result (path data arguments_path) (\<lambda>arguments.
             bind_result (JSON_parse rt arguments) (\<lambda>parsed. field parsed (js ''response'')))
         else Inr Null))"

definition callOpenAI :: "runtime \<Rightarrow> LLMParams \<Rightarrow> outcome" where
  "callOpenAI rt params =
     ([callOpenAI_request params],
      bind_result (fetch rt (callOpenAI_request params)) (\<lambda>response.
        if \<not> ok response then
          Inl (Error (js ''OpenAI API error: '' @ num_to_string (status response) @ js '' ''
                      @ statusText response))
        else bind_result (json response) (callOpenAI_result rt)))"

subsection \<open>\<open>callGemini\<close>\<close>

definition line :: "message \<Rightarrow> jsstring" where
  "line m = js ''['' @ role m @ js ''] '' @ content m"

definition newline :: jsstring where
  "newline = [10]"

definition callGemini_postData :: "LLMParams \<Rightarrow> jsval" where
  "callGemini_postData params =
     JSON_stringify (Obj
       [(js ''contents'',
         Arr [Obj [(js ''parts'',
           Arr [Obj [(js ''text'', Str (join newline (map line (messages params))))]])]])])"

definition callGemini_request :: "LLMParams \<Rightarrow> http_request" where
  "callGemini_request params =
     \<lparr>url = js ''https://generativelanguage.googleapis.com/v1beta/models/'' @ modelName params
            @ js '':generateContent?key='' @ apiKey params,
      http_method = js ''POST'',
      headers = [(js ''Content-Type'', js ''application/json'')],
      body = callGemini_postData params\<rparr>"

definition callGemini :: "runtime \<Rightarrow> LLMParams \<Rightarrow> outcome" where
  "callGemini rt params =
     ([callGemini_request params],
      bind_result (fetch rt (callGemini_request params)) (\<lambda>response.
        if \<not> ok response then
          Inl (Error (js ''Gemini API error: '' @ num_to_string (status response) @ js '' ''
                      @ statusText response))
        else bind_result (json response) (\<lambda>data.
          path data [Field (js ''candidates''), Index 0, Field (js ''content''),
                     Field (js ''parts''), Index 0, Field (js ''text'')])))"

subsection \<open>\<open>callOpenRouter\<close>\<close>

definition callOpenRouter_postData :: "LLMParams \<Rightarrow> jsval" where
  "callOpenRouter_postData params =
     JSON_stringify (Obj
       [(js ''model'', Str (modelName params)),
        (js ''messages'', Arr (map message_value (messages params))),
        (js ''tools'', optional Arr (tools params)),
        (js ''response_format'', optional id (response_format params)),
        (js ''temperature'', optional Num (temperature params)),
        (js ''user'',
           Str (Buffer_from_toString_base64 (case user params of None \<Rightarrow> [] | Some u \<Rightarrow> u)))])"

definition callOpenRouter_request :: "LLMParams \<Rightarrow> http_request" where
  "callOpenRouter_request params =
     \<lparr>url = js ''https://openrouter.ai/api/v1/chat/completions'',
      http_method = js ''POST'',
      headers = [(js ''Content-Type'', js ''application/json''),
                 (js ''Authorization'', js ''Bearer '' @ apiKey params)],
      body = callOpenRouter_postData params\<rparr>"

definition callOpenRouter :: "runtime \<Rightarrow> LLMParams \<Rightarrow> outcome" where
  "callOpenRouter rt params =
     ([callOpenRouter_request params],
      bind_result (fetch rt (callOpenRouter_request params)) (\<lambda>response.
        if \<not> ok response then
          Inl (Error (js ''OpenRouter API error: '' @ num_to_string (status response) @ js '' ''
                      @ statusText response))
        else bind_result (json response) (\<lambda>data.
          path data [Field (js ''choices''), Index 0, Field (js ''message''),
                     Field (js ''content'')])))"

subsection \<open>\<open>callLLM\<close>\<close>

definition callLLM :: "runtime \<Rightarrow> LLMParams \<Rightarrow> outcome" where
  "callLLM rt params =
     (if provider params = js ''openai'' then callOpenAI rt params
      else if provider params = js ''gemini'' then callGemini rt params
      else if provider params = js ''openrouter'' then callOpenRouter rt params
      else ([], Inl (Error (js ''Unsupported provider: '' @ provider params))))"

section \<open>The words of the specification\<close>

text \<open>
  The transcript of variant B as the specification words it: one line per message, in
  order, each \<open>[role] content\<close>, with a newline between two lines.
\<close>

fun transcript :: "message list \<Rightarrow> jsstring" where
  "transcript [] = []"
| "transcript [m] = js ''['' @ role m @ js ''] '' @ content m"
| "transcript (m # n # ms) =
     js ''['' @ role m @ js ''] '' @ content m @ [10] @ transcript (n # ms)"

text \<open>A string is well formed when every surrogate code unit is part of a pair.\<close>

fun well_formed :: "jsstring \<Rightarrow> bool" where
  "well_formed [] \<longleftrightarrow> True"
| "well_formed [u] \<longleftrightarrow> \<not> is_high u \<and> \<not> is_low u"
| "well_formed (u # v # us) \<longleftrightarrow>
     (if is_high u then is_low v \<and> well_formed us
      else \<not> is_low u \<and> well_formed (v # us))"

text \<open>
  The consumer of the \<open>user\<close> value, which is not part of the program: it decodes
  Base64 and then UTF-8, as \<open>Buffer.from(t, "base64").toString()\<close> does on the output of
  the encoder.  \<open>None\<close> stands for an input the encoder never produces.
\<close>

definition base64_index :: "16 word \<Rightarrow> nat option" where
  "base64_index c =
     (let n = unat c in
      if 65 \<le> n \<and> n \<le> 90 then Some (n - 65)
      else if 97 \<le> n \<and> n \<le> 122 then Some (n - 97 + 26)
      else if 48 \<le> n \<and> n \<le> 57 then Some (n - 48 + 52)
      else if n = 43 then Some 62
      else if n = 47 then Some 63
      else None)"

fun base64_decode :: "jsstring \<Rightarrow> 8 word list option" where
  "base64_decode [] = Some []"
| "base64_decode (c0 # c1 # c2 # c3 # cs) =
     (case base64_index c0 of None \<Rightarrow> None | Some s0 \<Rightarrow>
     (case base64_index c1 of None \<Rightarrow> None | Some s1 \<Rightarrow>
       if c2 = pad \<and> c3 = pad \<and> cs = [] then Some [of_nat (s0 * 4 + s1 div 16)]
       else
     (case base64_index c2 of None \<Rightarrow> None | Some s2 \<Rightarrow>
       if c3 = pad \<and> cs = [] then
         Some [of_nat (s0 * 4 + s1 div 16), of_nat (s1 mod 16 * 16 + s2 div 4)]
       else
     (case base64_index c3 of None \<Rightarrow> None | Some s3 \<Rightarrow>
       map_option
         (\<lambda>bs. of_nat (s0 * 4 + s1 div 16) # of_nat (s1 mod 16 * 16 + s2 div 4)
                # of_nat (s2 mod 4 * 64 + s3) # bs)
         (base64_decode cs)))))"
| "base64_decode cs = None"

definition surrogates :: "nat \<Rightarrow> jsstring" where
  "surrogates c =
     [of_nat (0xD800 + (c - 0x10000) div 0x400), of_nat (0xDC00 + (c - 0x10000) mod 0x400)]"

fun utf8_decode :: "8 word list \<Rightarrow> jsstring option" where
  "utf8_decode [] = Some []"
| "utf8_decode (b # bs) =
     (if unat b < 0x80 then map_option (\<lambda>s. of_nat (unat b) # s) (utf8_decode bs)
      else if unat b < 0xC0 then None
      else if unat b < 0xE0 then
        (case bs of
           b1 # r \<Rightarrow>
             map_option (\<lambda>s. of_nat ((unat b - 0xC0) * 64 + (unat b1 - 0x80)) # s) (utf8_decode r)
         | _ \<Rightarrow> None)
      else if unat b < 0xF0 then
        (case bs of
           b1 # b2 # r \<Rightarrow>
             map_option
               (\<lambda>s. of_nat ((unat b - 0xE0) * 4096 + (unat b1 - 0x80) * 64 + (unat b2 - 0x80)) # s)
               (utf8_decode r)
         | _ \<Rightarrow> None)
      else
        (case bs of
           b1 # b2 # b3 # r \<Rightarrow>
             map_option
               (\<lambda>s. surrogates ((unat b - 0xF0) * 262144 + (unat b1 - 0x80) * 4096
                                 + (unat b2 - 0x80) * 64 + (unat b3 - 0x80)) @ s)
               (utf8_decode r)
         | _ \<Rightarrow> None))"

definition decode_user :: "jsstring \<Rightarrow> jsstring option" where
  "decode_user t = (case base64_decode t of None \<Rightarrow> None | Some bs \<Rightarrow> utf8_decode bs)"

section \<open>Observations and sample data\<close>

text \<open>The names of the members of a JSON object, as \<open>Object.keys\<close> lists them.\<close>

fun keys :: "jsval \<Rightarrow> jsstring list" where
  "keys (Obj ps) = map fst ps"
| "keys v = []"

text \<open>
  The call of \<open>examples/openai_example.js\<close>, with the provider tag left open and the
  transcript of the two other examples.
\<close>

definition example_params :: "jsstring \<Rightarrow> LLMParams" where
  "example_params tag =
     \<lparr>provider = tag, modelName = js ''gpt-3.5-turbo'', apiKey = js ''sk-test'',
      messages = [\<lparr>role = js ''user'', content = js ''What is the capital of France?''\<rparr>],
      temperature = Some (Finite (7 / 10)), user = Some (js ''test-user-123''),
      tools = None, response_format = None\<rparr>"

text \<open>The same call with the \<open>user\<close> parameter \<open>u\<close>.\<close>

definition params_with_user :: "jsstring \<Rightarrow> jsstring \<Rightarrow> LLMParams" where
  "params_with_user tag u = (example_params tag)\<lparr>user := Some u\<rparr>"

text \<open>
  A runtime for the examples: the network answers every request with \<open>r\<close>, and
  \<open>JSON.parse\<close> is given on the one text the examples parse.
\<close>

definition example_parse :: "jsval \<Rightarrow> error + jsval" where
  \<open>example_parse v =
     (if v = Str (js ''{"response": true}'') then Inr (Obj [(js ''response'', Bool True)])
      else Inl SyntaxError)\<close>

definition example_runtime :: "response \<Rightarrow> runtime" where
  "example_runtime r = \<lparr>fetch = (\<lambda>request. Inr r), JSON_parse = example_parse\<rparr>"

text \<open>A response body whose first choice carries the message \<open>m\<close>.\<close>

definition first_choice :: "jsval \<Rightarrow> jsval" where
  "first_choice m = Obj [(js ''choices'', Arr [Obj [(js ''message'', m)]])]"

definition success :: "jsval \<Rightarrow> response" where
  "success data = \<lparr>status = 200, statusText = js ''OK'', json = Inr data\<rparr>"

definition unauthorized :: response where
  "unauthorized = \<lparr>status = 401, statusText = js ''Unauthorized'', json = Inl SyntaxError\<rparr>"

section \<open>Basic facts\<close>

lemma bind_result_simps [simp]:
  "bind_result (Inl e) f = Inl e"
  "bind_result (Inr x) f = f x"
  by (simp_all add: bind_result_def)

lemma js_append: "js (a @ b) = js a @ js b"
  by (simp add: js_def)

lemma unat_of_char: "unat (of_char c :: 16 word) = of_char c"
proof -
  have "(of_char c :: nat) < 65536"
    using nat_of_char_less_256 [of c] by linarith
  then have "(of_char c :: nat) mod 65536 = of_char c"
    by (rule mod_less)
  then have "unat (of_nat (of_char c) :: 16 word) = of_char c"
    by (simp only: unat_of_nat) simp
  then show ?thesis by (simp only: of_nat_of_char)
qed

lemma of_char_inj16: "(of_char a :: 16 word) = of_char b \<longleftrightarrow> a = b"
proof
  assume "(of_char a :: 16 word) = of_char b"
  then have "unat (of_char a :: 16 word) = unat (of_char b :: 16 word)" by (rule arg_cong)
  then have "(of_char a :: nat) = of_char b" by (simp only: unat_of_char)
  then show "a = b" by (simp only: of_char_eq_iff)
qed simp

lemma js_eq_iff [simp]: "js a = js b \<longleftrightarrow> a = b"
proof -
  have "inj (of_char :: char \<Rightarrow> 16 word)"
    by (rule injI) (simp only: of_char_inj16)
  then show ?thesis unfolding js_def by (rule inj_map_eq_map)
qed

section \<open>The router\<close>

lemma requests_distinct:
  "callOpenAI_request params \<noteq> callGemini_request params"
  "callOpenAI_request params \<noteq> callOpenRouter_request params"
  "callGemini_request params \<noteq> callOpenRouter_request params"
  by (simp_all add: callOpenAI_request_def callGemini_request_def callOpenRouter_request_def)

text \<open>
  Claim C1.  For each of the three supported provider tags, \<open>callLLM\<close> is the call of
  the matching adapter: its outcome, error or value, is that adapter's outcome unchanged,
  and the one request it sends is the request that adapter builds, which is the request
  of neither other adapter.
\<close>

theorem dispatch_routes_to_matching_adapter:
  "(provider params = js ''openai'' \<longrightarrow>
      callLLM rt params = callOpenAI rt params
      \<and> fst (callLLM rt params) = [callOpenAI_request params]
      \<and> callGemini_request params \<notin> set (fst (callLLM rt params))
      \<and> callOpenRouter_request params \<notin> set (fst (callLLM rt params)))
   \<and> (provider params = js ''gemini'' \<longrightarrow>
      callLLM rt params = callGemini rt params
      \<and> fst (callLLM rt params) = [callGemini_request params]
      \<and> callOpenAI_request params \<notin> set (fst (callLLM rt params))
      \<and> callOpenRouter_request params \<notin> set (fst (callLLM rt params)))
   \<and> (provider params = js ''openrouter'' \<longrightarrow>
      callLLM rt params = callOpenRouter rt params
      \<and> fst (callLLM rt params) = [callOpenRouter_request params]
      \<and> callOpenAI_request params \<notin> set (fst (callLLM rt params))
      \<and> callGemini_request params \<notin> set (fst (callLLM rt params)))"
  using requests_distinct [of params] requests_distinct [of params, symmetric]
  by (simp add: callLLM_def callOpenAI_def callGemini_def callOpenRouter_def)

theorem dispatch_routes_witness:
  "callLLM (example_runtime unauthorized) (example_params (js ''openai''))
     = callOpenAI (example_runtime unauthorized) (example_params (js ''openai''))
   \<and> callLLM (example_runtime unauthorized) (example_params (js ''gemini''))
     = callGemini (example_runtime unauthorized) (example_params (js ''gemini''))
   \<and> callLLM (example_runtime unauthorized) (example_params (js ''openrouter''))
     = callOpenRouter (example_runtime unauthorized) (example_params (js ''openrouter''))"
  using dispatch_routes_to_matching_adapter
          [of "example_params (js ''openai'')" "example_runtime unauthorized"]
        dispatch_routes_to_matching_adapter
          [of "example_params (js ''gemini'')" "example_runtime unauthorized"]
        dispatch_routes_to_matching_adapter
          [of "example_params (js ''openrouter'')" "example_runtime unauthorized"]
  by (simp add: example_params_def)

text \<open>
  Claim C3.  For a provider tag that is none of the three, \<open>callLLM\<close> throws an error
  whose message is \<open>Unsupported provider: \<close> followed by the tag, and it has sent no
  request.  Every adapter sends a request first, so the outcome is that of no adapter.
\<close>

theorem unsupported_provider_fails_before_network:
  assumes "provider params \<noteq> js ''openai''"
    and "provider params \<noteq> js ''gemini''"
    and "provider params \<noteq> js ''openrouter''"
  shows "callLLM rt params = ([], Inl (Error (js ''Unsupported provider: '' @ provider params)))
    \<and> callLLM rt params \<noteq> callOpenAI rt params
    \<and> callLLM rt params \<noteq> callGemini rt params
    \<and> callLLM rt params \<noteq> callOpenRouter rt params"
  using assms by (simp add: callLLM_def callOpenAI_def callGemini_def callOpenRouter_def)

theorem unsupported_provider_witness:
  "provider (example_params (js ''anthropic'')) \<noteq> js ''openai''
   \<and> provider (example_params (js ''anthropic'')) \<noteq> js ''gemini''
   \<and> provider (example_params (js ''anthropic'')) \<noteq> js ''openrouter''
   \<and> callLLM (example_runtime unauthorized) (example_params (js ''anthropic''))
       = ([], Inl (Error (js ''Unsupported provider: anthropic'')))"
proof -
  have a: "provider (example_params (js ''anthropic'')) \<noteq> js ''openai''"
    and b: "provider (example_params (js ''anthropic'')) \<noteq> js ''gemini''"
    and c: "provider (example_params (js ''anthropic'')) \<noteq> js ''openrouter''"
    by (simp_all add: example_params_def)
  have "js ''Unsupported provider: '' @ provider (example_params (js ''anthropic''))
        = js ''Unsupported provider: anthropic''"
    by (simp add: example_params_def js_append [symmetric])
  with unsupported_provider_fails_before_network [OF a b c, of "example_runtime unauthorized"]
  show ?thesis using a b c by simp
qed

section \<open>HTTP failures\<close>

lemma num_401: "num_to_string 401 = js ''401''"
  by (simp add: num_to_string.simps digit_def js_def)

text \<open>
  Claim C4.  When the response to the request of any of the three adapters has a status
  outside 200 to 299, the adapter throws an error whose message is its prefix, the
  decimal status, a space and the status text.  It has sent that one request and no
  other, the message depends on neither \<open>response.json()\<close> nor \<open>JSON.parse\<close>, and
  \<open>callLLM\<close> hands the same outcome to its caller.
\<close>

theorem http_error_status_fails_call:
  assumes "\<not> ok r"
  shows
   "(fetch rt (callOpenAI_request params) = Inr r \<longrightarrow>
       callOpenAI rt params =
         ([callOpenAI_request params],
          Inl (Error (js ''OpenAI API error: '' @ num_to_string (status r) @ js '' '' @ statusText r)))
       \<and> (provider params = js ''openai'' \<longrightarrow> callLLM rt params = callOpenAI rt params))
    \<and> (fetch rt (callGemini_request params) = Inr r \<longrightarrow>
       callGemini rt params =
         ([callGemini_request params],
          Inl (Error (js ''Gemini API error: '' @ num_to_string (status r) @ js '' '' @ statusText r)))
       \<and> (provider params = js ''gemini'' \<longrightarrow> callLLM rt params = callGemini rt params))
    \<and> (fetch rt (callOpenRouter_request params) = Inr r \<longrightarrow>
       callOpenRouter rt params =
         ([callOpenRouter_request params],
          Inl (Error (js ''OpenRouter API error: '' @ num_to_string (status r) @ js '' ''
                      @ statusText r)))
       \<and> (provider params = js ''openrouter'' \<longrightarrow> callLLM rt params = callOpenRouter rt params))"
  using assms by (simp add: callLLM_def callOpenAI_def callGemini_def callOpenRouter_def)

theorem http_error_status_witness:
  "\<not> ok unauthorized
   \<and> callLLM (example_runtime unauthorized) (example_params (js ''openai''))
       = ([callOpenAI_request (example_params (js ''openai''))],
          Inl (Error (js ''OpenAI API error: 401 Unauthorized'')))
   \<and> callLLM (example_runtime unauthorized) (example_params (js ''gemini''))
       = ([callGemini_request (example_params (js ''gemini''))],
          Inl (Error (js ''Gemini API error: 401 Unauthorized'')))
   \<and> callLLM (example_runtime unauthorized) (example_params (js ''openrouter''))
       = ([callOpenRouter_request (example_params (js ''openrouter''))],
          Inl (Error (js ''OpenRouter API error: 401 Unauthorized'')))"
proof -
  have n: "\<not> ok unauthorized"
    by (simp add: ok_def unauthorized_def)
  have f: "fetch (example_runtime unauthorized) q = Inr unauthorized" for q
    by (simp add: example_runtime_def)
  have p: "provider (example_params t) = t" for t
    by (simp add: example_params_def)
  have m: "js a @ num_to_string (status unauthorized) @ js '' '' @ statusText unauthorized
           = js (a @ ''401 Unauthorized'')" for a
    by (simp add: unauthorized_def num_401 js_append [symmetric])
  show ?thesis
    using http_error_status_fails_call [OF n, of "example_runtime unauthorized"
            "example_params (js ''openai'')"]
      http_error_status_fails_call [OF n, of "example_runtime unauthorized"
            "example_params (js ''gemini'')"]
      http_error_status_fails_call [OF n, of "example_runtime unauthorized"
            "example_params (js ''openrouter'')"]
    by (simp add: n f p m)
qed

section \<open>What \<open>callOpenAI\<close> returns\<close>

lemma path_append: "path v (xs @ ys) = bind_result (path v xs) (\<lambda>w. path w ys)"
  by (induction xs arbitrary: v) (simp_all add: bind_result_def split: sum.splits)

lemma content_path_split:
  "content_path = [Field (js ''choices''), Index 0, Field (js ''message'')] @ [Field (js ''content'')]"
  by (simp add: content_path_def)

lemma arguments_path_split:
  "arguments_path = [Field (js ''choices''), Index 0, Field (js ''message'')]
     @ [Field (js ''tool_calls''), Index 0, Field (js ''function''), Field (js ''arguments'')]"
  by (simp add: arguments_path_def)

lemma path_content:
  assumes "path data [Field (js ''choices''), Index 0, Field (js ''message'')] = Inr m"
  shows "path data content_path = field m (js ''content'')"
  unfolding content_path_split path_append using assms
  by (simp add: bind_result_def split: sum.splits)

lemma path_arguments:
  assumes "path data [Field (js ''choices''), Index 0, Field (js ''message'')] = Inr m"
  shows "path data arguments_path
       = path m [Field (js ''tool_calls''), Index 0, Field (js ''function''), Field (js ''arguments'')]"
  unfolding arguments_path_split path_append using assms by simp

lemma callOpenAI_success:
  assumes "fetch rt (callOpenAI_request params) = Inr r" "ok r" "json r = Inr data"
  shows "callOpenAI rt params = ([callOpenAI_request params], callOpenAI_result rt data)"
  using assms by (simp add: callOpenAI_def)

text \<open>
  Claim C2, as the program has it.  Let the response be a success whose body parses to
  \<open>data\<close>, and let the read of \<open>data.choices[0].message\<close> give \<open>m\<close>.  If \<open>m.content\<close> reads
  as a value that is not \<open>null\<close>, the call returns it as it is.  If it reads as \<open>null\<close>
  and \<open>m.tool_calls[0].function.arguments\<close> reads as a value that is not \<open>null\<close>, the
  call returns the property \<open>response\<close> of what \<open>JSON.parse\<close> makes of the arguments.
  If both read as \<open>null\<close>, the call returns \<open>null\<close>.  The three cases are run below:
  content \<open>"Paris"\<close> gives \<open>"Paris"\<close>, the arguments \<open>{"response": true}\<close> give \<open>true\<close>,
  and \<open>null\<close> arguments give \<open>null\<close>.
\<close>

theorem openai_result_three_way:
  assumes "fetch rt (callOpenAI_request params) = Inr r" and "ok r" and "json r = Inr data"
    and "path data [Field (js ''choices''), Index 0, Field (js ''message'')] = Inr m"
  shows
   "(field m (js ''content'') = Inr c \<and> c \<noteq> Null \<longrightarrow> snd (callOpenAI rt params) = Inr c)
    \<and> (field m (js ''content'') = Inr Null
        \<and> path m [Field (js ''tool_calls''), Index 0, Field (js ''function''),
                   Field (js ''arguments'')] = Inr a
        \<and> a \<noteq> Null \<longrightarrow>
        snd (callOpenAI rt params)
          = bind_result (JSON_parse rt a) (\<lambda>parsed. field parsed (js ''response'')))
    \<and> (field m (js ''content'') = Inr Null
        \<and> path m [Field (js ''tool_calls''), Index 0, Field (js ''function''),
                   Field (js ''arguments'')] = Inr Null \<longrightarrow>
        snd (callOpenAI rt params) = Inr Null)"
  unfolding callOpenAI_success [OF assms(1-3)] callOpenAI_result_def
    path_content [OF assms(4)] path_arguments [OF assms(4)]
  by simp

text \<open>
  Claim C9.  With a \<open>null\<close> content and a \<open>tool_calls\<close> that is absent or an empty
  array, the read of \<open>tool_calls[0].function\<close> throws a \<open>TypeError\<close>: the call fails
  and does not return \<open>null\<close>.
\<close>

theorem openai_missing_tool_call_throws:
  assumes "fetch rt (callOpenAI_request params) = Inr r" and "ok r" and "json r = Inr data"
    and "path data [Field (js ''choices''), Index 0, Field (js ''message'')] = Inr m"
    and "field m (js ''content'') = Inr Null"
    and "field m (js ''tool_calls'') = Inr Undefined \<or> field m (js ''tool_calls'') = Inr (Arr [])"
  shows "callOpenAI rt params = ([callOpenAI_request params], Inl TypeError)"
  unfolding callOpenAI_success [OF assms(1-3)] callOpenAI_result_def
    path_content [OF assms(4)] path_arguments [OF assms(4)]
  using assms(5,6) by auto


lemma first_choice_message:
  "path (first_choice m) [Field (js ''choices''), Index 0, Field (js ''message'')] = Inr m"
  by (simp add: first_choice_def)

lemma example_runtime_success:
  "fetch (example_runtime (success data)) q = Inr (success data)"
  "ok (success data)"
  "json (success data) = Inr data"
  by (simp_all add: example_runtime_def success_def ok_def)

theorem openai_result_witness:
  \<open>snd (callOpenAI
          (example_runtime (success (first_choice (Obj [(js ''content'', Str (js ''Paris''))]))))
          (example_params (js ''openai'')))
     = Inr (Str (js ''Paris''))
   \<and> snd (callOpenAI
          (example_runtime (success (first_choice (Obj
             [(js ''content'', Null),
              (js ''tool_calls'',
                 Arr [Obj [(js ''function'',
                   Obj [(js ''arguments'', Str (js ''{"response": true}''))])]])]))))
          (example_params (js ''openai'')))
     = Inr (Bool True)
   \<and> snd (callOpenAI
          (example_runtime (success (first_choice (Obj
             [(js ''content'', Null),
              (js ''tool_calls'',
                 Arr [Obj [(js ''function'', Obj [(js ''arguments'', Null)])]])]))))
          (example_params (js ''openai'')))
     = Inr Null\<close>
proof -
  have p: "JSON_parse (example_runtime r) = example_parse" for r
    by (simp add: example_runtime_def)
  show ?thesis
    using openai_result_three_way [OF example_runtime_success first_choice_message,
            where c = "Str (js ''Paris'')" and a = Null]
      openai_result_three_way [OF example_runtime_success first_choice_message,
            where c = Null and a = \<open>Str (js ''{"response": true}'')\<close>]
      openai_result_three_way [OF example_runtime_success first_choice_message,
            where c = Null and a = Null]
    by (simp add: p example_parse_def)
qed

text \<open>
  Claim C2 as it is worded, for every successful body, fails.  On the body
  \<open>{choices: [{message: {content: null}}]}\<close> the content is \<open>null\<close> and there is no
  tool call, and the call throws a \<open>TypeError\<close> where the claim has it return an empty
  result; on the body \<open>{}\<close> there is no first choice and the call throws as well.
\<close>

theorem openai_null_content_without_tool_call_is_not_empty:
  "snd (callOpenAI (example_runtime (success (first_choice (Obj [(js ''content'', Null)]))))
          (example_params (js ''openai'')))
     = Inl TypeError
   \<and> snd (callOpenAI (example_runtime (success (first_choice (Obj [(js ''content'', Null)]))))
          (example_params (js ''openai'')))
     \<noteq> Inr Null
   \<and> snd (callOpenAI (example_runtime (success (Obj []))) (example_params (js ''openai'')))
     = Inl TypeError"
  by (simp add: callOpenAI_success [OF example_runtime_success] callOpenAI_result_def
        first_choice_def content_path_def arguments_path_def)

theorem openai_missing_tool_call_witness:
  "callOpenAI (example_runtime (success (first_choice (Obj [(js ''content'', Null)]))))
       (example_params (js ''openai''))
     = ([callOpenAI_request (example_params (js ''openai''))], Inl TypeError)
   \<and> callOpenAI
       (example_runtime (success (first_choice
          (Obj [(js ''content'', Null), (js ''tool_calls'', Arr [])]))))
       (example_params (js ''openai''))
     = ([callOpenAI_request (example_params (js ''openai''))], Inl TypeError)"
proof -
  have a: "field (Obj [(js ''content'', Null)]) (js ''content'') = Inr Null"
    and b: "field (Obj [(js ''content'', Null)]) (js ''tool_calls'') = Inr Undefined
            \<or> field (Obj [(js ''content'', Null)]) (js ''tool_calls'') = Inr (Arr [])"
    and c: "field (Obj [(js ''content'', Null), (js ''tool_calls'', Arr [])]) (js ''content'')
            = Inr Null"
    and d: "field (Obj [(js ''content'', Null), (js ''tool_calls'', Arr [])]) (js ''tool_calls'')
              = Inr Undefined
            \<or> field (Obj [(js ''content'', Null), (js ''tool_calls'', Arr [])]) (js ''tool_calls'')
              = Inr (Arr [])"
    by simp_all
  show ?thesis
    using openai_missing_tool_call_throws [OF example_runtime_success first_choice_message a b]
      openai_missing_tool_call_throws [OF example_runtime_success first_choice_message c d]
    by simp
qed

section \<open>The request of \<open>callGemini\<close>\<close>

lemma join_loop_Suc:
  "join_loop sep xs (Suc k) R = R @ concat (map (\<lambda>x. sep @ x) xs)"
  by (induction xs arbitrary: k R) simp_all

lemma join_Cons: "join sep (x # xs) = x @ concat (map (\<lambda>y. sep @ y) xs)"
  by (simp add: join_def join_loop_Suc)

lemma transcript_Cons:
  "transcript (m # ms) = line m @ concat (map (\<lambda>x. newline @ line x) ms)"
  by (induction ms arbitrary: m) (simp_all add: line_def newline_def)

lemma join_lines: "join newline (map line ms) = transcript ms"
proof (cases ms)
  case Nil
  then show ?thesis by (simp add: join_def)
next
  case (Cons m ms')
  then show ?thesis by (simp add: join_Cons transcript_Cons comp_def)
qed

lemma gemini_text:
  "path (body (callGemini_request params))
     [Field (js ''contents''), Index 0, Field (js ''parts''), Index 0, Field (js ''text'')]
   = Inr (Str (transcript (messages params)))"
  by (simp add: callGemini_request_def callGemini_postData_def join_lines)

text \<open>
  Claim C5.  The body \<open>callGemini\<close> builds carries, at \<open>contents[0].parts[0].text\<close>, the
  messages in order, one line \<open>[role] content\<close> per message, joined by newlines.  For
  the single message of role \<open>user\<close> and content \<open>What is the capital of France?\<close>
  that text is \<open>[user] What is the capital of France?\<close>.
\<close>

theorem gemini_body_is_flattened_transcript:
  "path (body (callGemini_request params))
     [Field (js ''contents''), Index 0, Field (js ''parts''), Index 0, Field (js ''text'')]
   = Inr (Str (transcript (messages params)))
   \<and> path (body (callGemini_request
         (params\<lparr>messages := [\<lparr>role = js ''user'', content = js ''What is the capital of France?''\<rparr>]\<rparr>)))
       [Field (js ''contents''), Index 0, Field (js ''parts''), Index 0, Field (js ''text'')]
     = Inr (Str (js ''[user] What is the capital of France?''))"
  unfolding gemini_text by (simp add: js_append [symmetric])

text \<open>
  Claim C6.  The request \<open>callGemini\<close> sends (URL, method, headers and body) and the
  outcome of the call do not depend on \<open>temperature\<close>, \<open>tools\<close>, \<open>response_format\<close> or
  \<open>user\<close>, and the body has the one member \<open>contents\<close>.
\<close>

theorem gemini_drops_optional_fields:
  "callGemini_request (params\<lparr>temperature := t, tools := ts, response_format := f, user := u\<rparr>)
     = callGemini_request params
   \<and> callGemini rt (params\<lparr>temperature := t, tools := ts, response_format := f, user := u\<rparr>)
     = callGemini rt params
   \<and> keys (body (callGemini_request params)) = [js ''contents'']"
  by (simp add: callGemini_def callGemini_request_def callGemini_postData_def)

section \<open>The requests of \<open>callOpenAI\<close> and \<open>callOpenRouter\<close>\<close>

lemma openai_body_fields:
  "field (callOpenAI_postData params) (js ''model'') = Inr (Str (modelName params))"
  "field (callOpenAI_postData params) (js ''messages'')
     = Inr (JSON_stringify (Arr (map message_value (messages params))))"
  "field (callOpenAI_postData params) (js ''tools'')
     = Inr (JSON_stringify (optional Arr (tools params)))"
  "field (callOpenAI_postData params) (js ''response_format'')
     = Inr (JSON_stringify (optional id (response_format params)))"
  "field (callOpenAI_postData params) (js ''temperature'')
     = Inr (JSON_stringify (optional Num (temperature params)))"
  "field (callOpenAI_postData params) (js ''user'')
     = Inr (Str (Buffer_from_toString_base64 (case user params of None \<Rightarrow> [] | Some u \<Rightarrow> u)))"
  by (simp_all add: callOpenAI_postData_def)

lemma postData_same: "callOpenRouter_postData params = callOpenAI_postData params"
  by (simp add: callOpenRouter_postData_def callOpenAI_postData_def)

text \<open>
  Claim C7.  For the same parameters the body \<open>callOpenRouter\<close> builds is the body
  \<open>callOpenAI\<close> builds, member by member (\<open>model\<close>, \<open>messages\<close>, \<open>tools\<close>,
  \<open>response_format\<close>, \<open>temperature\<close> and the encoded \<open>user\<close>), and so is the method.  Of
  the options and the body (lines 37 to 52 and 128 to 143) only the \<open>Authorization\<close>
  header differs: \<open>callOpenAI\<close> sends the key itself, \<open>callOpenRouter\<close> sends \<open>Bearer \<close>
  followed by the key.  Each adapter posts to an endpoint of its own.
\<close>

theorem openrouter_envelope_is_openai_with_bearer:
  "body (callOpenRouter_request params) = body (callOpenAI_request params)
   \<and> http_method (callOpenRouter_request params) = http_method (callOpenAI_request params)
   \<and> headers (callOpenAI_request params)
       = [(js ''Content-Type'', js ''application/json''), (js ''Authorization'', apiKey params)]
   \<and> headers (callOpenRouter_request params)
       = [(js ''Content-Type'', js ''application/json''),
          (js ''Authorization'', js ''Bearer '' @ apiKey params)]
   \<and> field (body (callOpenRouter_request params)) (js ''model'') = Inr (Str (modelName params))
   \<and> field (body (callOpenRouter_request params)) (js ''messages'')
       = Inr (JSON_stringify (Arr (map message_value (messages params))))
   \<and> field (body (callOpenRouter_request params)) (js ''tools'')
       = Inr (JSON_stringify (optional Arr (tools params)))
   \<and> field (body (callOpenRouter_request params)) (js ''response_format'')
       = Inr (JSON_stringify (optional id (response_format params)))
   \<and> field (body (callOpenRouter_request params)) (js ''temperature'')
       = Inr (JSON_stringify (optional Num (temperature params)))
   \<and> field (body (callOpenRouter_request params)) (js ''user'')
       = Inr (Str (Buffer_from_toString_base64 (case user params of None \<Rightarrow> [] | Some u \<Rightarrow> u)))"
  by (simp add: callOpenRouter_request_def callOpenAI_request_def postData_same openai_body_fields)

lemma base64_empty: "Buffer_from_toString_base64 [] = []"
  by (simp add: Buffer_from_toString_base64_def)

lemma user_key: "js ''user'' \<in> set (keys (callOpenAI_postData params))"
  by (simp add: callOpenAI_postData_def)

text \<open>
  Claim C10.  The bodies of \<open>callOpenAI\<close> and \<open>callOpenRouter\<close> always have a member
  \<open>user\<close>.  Without a \<open>user\<close> parameter its value is the Base64 text of the empty
  string, which is the empty string, and the request is the one built for a \<open>user\<close>
  parameter that is the empty string.
\<close>

theorem absent_user_is_sent_as_empty_string:
  "js ''user'' \<in> set (keys (body (callOpenAI_request params)))
   \<and> js ''user'' \<in> set (keys (body (callOpenRouter_request params)))
   \<and> field (body (callOpenAI_request (params\<lparr>user := None\<rparr>))) (js ''user'') = Inr (Str [])
   \<and> field (body (callOpenRouter_request (params\<lparr>user := None\<rparr>))) (js ''user'') = Inr (Str [])
   \<and> callOpenAI_request (params\<lparr>user := None\<rparr>) = callOpenAI_request (params\<lparr>user := Some []\<rparr>)
   \<and> callOpenRouter_request (params\<lparr>user := None\<rparr>)
       = callOpenRouter_request (params\<lparr>user := Some []\<rparr>)"
  by (simp add: callOpenRouter_request_def callOpenAI_request_def postData_same openai_body_fields
        base64_empty user_key)
    (simp add: callOpenAI_postData_def)

section \<open>The encoding of \<open>user\<close>\<close>

lemma unat_of_nat16: "n < 65536 \<Longrightarrow> unat (of_nat n :: 16 word) = n"
  by (simp add: unat_of_nat)

lemma unat_of_nat8: "n < 256 \<Longrightarrow> unat (of_nat n :: 8 word) = n"
  by (simp add: unat_of_nat)

lemma unat8_less: "unat (b :: 8 word) < 256"
  using unsigned_less [of b] by simp

lemma unat16_less: "unat (u :: 16 word) < 65536"
  using unsigned_less [of u] by simp

lemma unat_base64_char:
  "i < 64 \<Longrightarrow> unat (base64_char i) =
     (if i < 26 then 65 + i else if i < 52 then 71 + i else if i < 62 then i - 4
      else if i = 62 then 43 else 47)"
  unfolding base64_char_def
  by (simp only: unat_of_nat16 split: if_splits) auto

lemma base64_index_char: "i < 64 \<Longrightarrow> base64_index (base64_char i) = Some i"
  unfolding base64_index_def Let_def
  by (simp add: unat_base64_char) arith

lemma base64_char_not_pad: "i < 64 \<Longrightarrow> base64_char i \<noteq> pad"
proof
  assume i: "i < 64" and eq: "base64_char i = pad"
  from eq have "unat (base64_char i) = unat pad" by simp
  with i show False
    by (simp add: unat_base64_char pad_def split: if_splits)
qed

lemma base64_index_pad: "base64_index pad = None"
  by (simp add: base64_index_def pad_def)

lemma digit_div: "y < n \<Longrightarrow> (x * n + y) div n = (x::nat)"
  by simp

lemma digit_mod: "y < n \<Longrightarrow> (x * n + y) mod n = (y::nat)"
  by simp

lemma sextets:
  fixes a b c :: nat
  assumes "a < 256" "b < 256" "c < 256"
  shows "a div 4 < 64" "a mod 4 * 16 + b div 16 < 64" "b mod 16 * 4 + c div 64 < 64" "c mod 64 < 64"
    "a mod 4 * 16 < 64" "b mod 16 * 4 < 64"
    "a div 4 * 4 + (a mod 4 * 16 + b div 16) div 16 = a"
    "(a mod 4 * 16 + b div 16) mod 16 * 16 + (b mod 16 * 4 + c div 64) div 4 = b"
    "(b mod 16 * 4 + c div 64) mod 4 * 64 + c mod 64 = c"
    "a div 4 * 4 + (a mod 4 * 16) div 16 = a"
    "(a mod 4 * 16 + b div 16) mod 16 * 16 + (b mod 16 * 4) div 4 = b"
proof -
  have a4: "a mod 4 < 4" and b16: "b mod 16 < 16" by simp_all
  have bd: "b div 16 < 16" and cd: "c div 64 < 4"
    using assms by (simp_all add: less_mult_imp_div_less)
  show "a div 4 < 64" using assms by (simp add: less_mult_imp_div_less)
  show "a mod 4 * 16 + b div 16 < 64" using a4 bd by linarith
  show "b mod 16 * 4 + c div 64 < 64" using b16 cd by linarith
  show "c mod 64 < 64" by simp
  show "a mod 4 * 16 < 64" using a4 by linarith
  show "b mod 16 * 4 < 64" using b16 by linarith
  show "a div 4 * 4 + (a mod 4 * 16 + b div 16) div 16 = a"
    by (simp only: digit_div [OF bd] div_mult_mod_eq)
  show "(a mod 4 * 16 + b div 16) mod 16 * 16 + (b mod 16 * 4 + c div 64) div 4 = b"
    by (simp only: digit_mod [OF bd] digit_div [OF cd] div_mult_mod_eq)
  show "(b mod 16 * 4 + c div 64) mod 4 * 64 + c mod 64 = c"
    by (simp only: digit_mod [OF cd] div_mult_mod_eq)
  show "a div 4 * 4 + (a mod 4 * 16) div 16 = a"
    by simp
  show "(a mod 4 * 16 + b div 16) mod 16 * 16 + (b mod 16 * 4) div 4 = b"
    by (simp only: digit_mod [OF bd] nonzero_mult_div_cancel_right div_mult_mod_eq)
qed


lemma base64_decode_quad:
  assumes "a < 256" "b < 256" "c < 256"
  shows "base64_decode (base64_char (a div 4) # base64_char (a mod 4 * 16 + b div 16)
           # base64_char (b mod 16 * 4 + c div 64) # base64_char (c mod 64) # cs)
         = map_option (\<lambda>bs. of_nat a # of_nat b # of_nat c # bs) (base64_decode cs)"
  using sextets [OF assms]
  by (simp add: base64_index_char base64_char_not_pad)

lemma base64_decode_two:
  assumes "a < 256" "b < 256"
  shows "base64_decode [base64_char (a div 4), base64_char (a mod 4 * 16 + b div 16),
           base64_char (b mod 16 * 4), pad] = Some [of_nat a, of_nat b]"
  using sextets [OF assms assms(1)]
  by (simp add: base64_index_char base64_char_not_pad base64_index_pad)

lemma base64_decode_one:
  assumes "a < 256"
  shows "base64_decode [base64_char (a div 4), base64_char (a mod 4 * 16), pad, pad]
         = Some [of_nat a]"
  using sextets [OF assms assms assms]
  by (simp add: base64_index_char base64_char_not_pad base64_index_pad)

lemma base64_roundtrip: "base64_decode (base64 bs) = Some bs"
proof (induction bs rule: base64.induct)
  case 1
  show ?case by simp
next
  case (2 a)
  show ?case using base64_decode_one [OF unat8_less [of a]] by simp
next
  case (3 a b)
  show ?case using base64_decode_two [OF unat8_less [of a] unat8_less [of b]] by simp
next
  case (4 a b c bs)
  show ?case
    using base64_decode_quad [OF unat8_less [of a] unat8_less [of b] unat8_less [of c]] "4.IH"
    by simp
qed

lemma div4096: "(c::nat) div 4096 = c div 64 div 64"
  using div_mult2_eq [of c 64 64] by simp

lemma div262144: "(c::nat) div 262144 = c div 64 div 64 div 64"
  using div_mult2_eq [of c 4096 64] by (simp add: div4096)

lemma split6_1: "(c::nat) div 64 * 64 + c mod 64 = c"
  by simp

lemma split6_2: "(c::nat) div 4096 * 4096 + c div 64 mod 64 * 64 + c mod 64 = c"
proof -
  have "c div 4096 * 4096 + c div 64 mod 64 * 64 = (c div 64 div 64 * 64 + c div 64 mod 64) * 64"
    unfolding div4096 by (simp only: distrib_right mult.assoc)
  also have "\<dots> = c div 64 * 64" by (simp only: split6_1)
  finally show ?thesis by simp
qed

lemma split6_3:
  "(c::nat) div 262144 * 262144 + c div 4096 mod 64 * 4096 + c div 64 mod 64 * 64 + c mod 64 = c"
proof -
  have "c div 262144 * 262144 + c div 4096 mod 64 * 4096 + c div 64 mod 64 * 64
      = (c div 64 div 4096 * 4096 + c div 64 div 64 mod 64 * 64 + c div 64 mod 64) * 64"
    unfolding div262144 div4096 by (simp only: distrib_right mult.assoc)
  also have "\<dots> = c div 64 * 64" by (simp only: split6_2)
  finally show ?thesis by simp
qed

lemma lead_byte_bounds:
  fixes c :: nat
  shows "c < 2048 \<Longrightarrow> c div 64 < 32"
    and "c < 65536 \<Longrightarrow> c div 4096 < 16"
    and "c < 1114112 \<Longrightarrow> c div 262144 < 8"
    and "c mod 64 < 64"
  by (simp_all add: less_mult_imp_div_less)




lemma utf8_decode_1:
  "n0 < 128 \<Longrightarrow> utf8_decode (of_nat n0 # r) = map_option (\<lambda>s. of_nat n0 # s) (utf8_decode r)"
  by (simp add: unat_of_nat8)

lemma utf8_decode_2:
  "192 \<le> n0 \<Longrightarrow> n0 < 224 \<Longrightarrow> n1 < 256 \<Longrightarrow>
   utf8_decode (of_nat n0 # of_nat n1 # r)
     = map_option (\<lambda>s. of_nat ((n0 - 192) * 64 + (n1 - 128)) # s) (utf8_decode r)"
  by (simp add: unat_of_nat8)

lemma utf8_decode_3:
  "224 \<le> n0 \<Longrightarrow> n0 < 240 \<Longrightarrow> n1 < 256 \<Longrightarrow> n2 < 256 \<Longrightarrow>
   utf8_decode (of_nat n0 # of_nat n1 # of_nat n2 # r)
     = map_option (\<lambda>s. of_nat ((n0 - 224) * 4096 + (n1 - 128) * 64 + (n2 - 128)) # s)
         (utf8_decode r)"
  by (simp add: unat_of_nat8)

lemma utf8_decode_4:
  "240 \<le> n0 \<Longrightarrow> n0 < 256 \<Longrightarrow> n1 < 256 \<Longrightarrow> n2 < 256 \<Longrightarrow> n3 < 256 \<Longrightarrow>
   utf8_decode (of_nat n0 # of_nat n1 # of_nat n2 # of_nat n3 # r)
     = map_option
         (\<lambda>s. surrogates ((n0 - 240) * 262144 + (n1 - 128) * 4096 + (n2 - 128) * 64 + (n3 - 128)) @ s)
         (utf8_decode r)"
  by (simp add: unat_of_nat8)


lemma utf8_decode_bmp:
  assumes "c < 65536"
  shows "utf8_decode (utf8_code_point c @ r) = map_option (\<lambda>s. of_nat c # s) (utf8_decode r)"
proof -
  consider "c < 128" | "128 \<le> c" "c < 2048" | "2048 \<le> c" "c < 65536"
    using assms by linarith
  then show ?thesis
  proof cases
    case 1
    then have "utf8_code_point c = [of_nat c]"
      by (simp add: utf8_code_point_def)
    then show ?thesis using utf8_decode_1 [OF 1] by simp
  next
    case 2
    have b: "192 \<le> 192 + c div 64" "192 + c div 64 < 224" "128 + c mod 64 < 256"
      using lead_byte_bounds(1) [OF 2(2)] lead_byte_bounds(4) [of c] by linarith+
    have "utf8_code_point c = [of_nat (192 + c div 64), of_nat (128 + c mod 64)]"
      using 2 unfolding utf8_code_point_def by (simp del: of_nat_add)
    then show ?thesis
      using utf8_decode_2 [OF b, of r] split6_1 [of c] by (simp del: of_nat_add)
  next
    case 3
    have b: "224 \<le> 224 + c div 4096" "224 + c div 4096 < 240" "128 + c div 64 mod 64 < 256"
      "128 + c mod 64 < 256"
      using lead_byte_bounds(2) [OF 3(2)] lead_byte_bounds(4) [of c]
        lead_byte_bounds(4) [of "c div 64"]
      by linarith+
    have "utf8_code_point c
        = [of_nat (224 + c div 4096), of_nat (128 + c div 64 mod 64), of_nat (128 + c mod 64)]"
      using 3 unfolding utf8_code_point_def by (simp del: of_nat_add)
    then show ?thesis
      using utf8_decode_3 [OF b, of r] split6_2 [of c] by (simp del: of_nat_add)
  qed
qed

lemma utf8_decode_supplementary:
  assumes "65536 \<le> c" "c < 1114112"
  shows "utf8_decode (utf8_code_point c @ r) = map_option (\<lambda>s. surrogates c @ s) (utf8_decode r)"
proof -
  have b: "240 \<le> 240 + c div 262144" "240 + c div 262144 < 256" "128 + c div 4096 mod 64 < 256"
    "128 + c div 64 mod 64 < 256" "128 + c mod 64 < 256"
    using lead_byte_bounds(3) [OF assms(2)] lead_byte_bounds(4) [of c]
      lead_byte_bounds(4) [of "c div 64"] lead_byte_bounds(4) [of "c div 4096"]
    by linarith+
  have "utf8_code_point c
      = [of_nat (240 + c div 262144), of_nat (128 + c div 4096 mod 64),
         of_nat (128 + c div 64 mod 64), of_nat (128 + c mod 64)]"
    using assms unfolding utf8_code_point_def by (simp del: of_nat_add)
  then show ?thesis
    using utf8_decode_4 [OF b, of r] split6_3 [of c] by (simp del: of_nat_add)
qed


lemma code_point_range:
  assumes "is_high u" "is_low v"
  shows "65536 \<le> code_point u v" "code_point u v < 1114112"
  using assms unfolding is_high_def is_low_def code_point_def by linarith+

lemma surrogates_code_point:
  assumes "is_high u" "is_low v"
  shows "surrogates (code_point u v) = [u, v]"
proof -
  define h l where "h = unat u - 55296" and "l = unat v - 56320"
  have hl: "unat u = 55296 + h" "unat v = 56320 + l" "l < 1024"
    using assms unfolding is_high_def is_low_def h_def l_def by linarith+
  have c: "code_point u v - 65536 = h * 1024 + l"
    unfolding code_point_def h_def l_def by simp
  have "surrogates (code_point u v) = [of_nat (55296 + h), of_nat (56320 + l)]"
    unfolding surrogates_def c using hl(3) by (simp del: of_nat_add)
  also have "\<dots> = [of_nat (unat u), of_nat (unat v)]"
    by (simp only: hl)
  finally show ?thesis by simp
qed

lemma utf8_roundtrip: "well_formed s \<Longrightarrow> utf8_decode (utf8_encode s) = Some s"
proof (induction s rule: utf8_encode.induct)
  case 1
  show ?case by simp
next
  case (2 u)
  then show ?case
    using utf8_decode_bmp [OF unat16_less [of u], of "[]"] by simp
next
  case (3 u v us)
  show ?case
  proof (cases "is_high u")
    case True
    with "3.prems" have v: "is_low v" and us: "well_formed us" by simp_all
    have "utf8_decode (utf8_encode us) = Some us"
      using "3.IH"(1) True v us by simp
    then show ?thesis
      using True v utf8_decode_supplementary [OF code_point_range [OF True v]]
        surrogates_code_point [OF True v]
      by simp
  next
    case False
    with "3.prems" have u: "\<not> is_low u" and r: "well_formed (v # us)" by simp_all
    have "utf8_decode (utf8_encode (v # us)) = Some (v # us)"
      using "3.IH"(3) False u r by simp
    then show ?thesis
      using False u utf8_decode_bmp [OF unat16_less [of u]]
      by simp
  qed
qed

lemma decode_user_roundtrip:
  "well_formed s \<Longrightarrow> decode_user (Buffer_from_toString_base64 s) = Some s"
  by (simp add: decode_user_def Buffer_from_toString_base64_def base64_roundtrip utf8_roundtrip)

lemma user_sent:
  "field (body (callOpenAI_request params)) (js ''user'')
     = Inr (Str (Buffer_from_toString_base64 (case user params of None \<Rightarrow> [] | Some u \<Rightarrow> u)))"
  "field (body (callOpenRouter_request params)) (js ''user'')
     = Inr (Str (Buffer_from_toString_base64 (case user params of None \<Rightarrow> [] | Some u \<Rightarrow> u)))"
  by (simp_all add: callOpenAI_request_def callOpenRouter_request_def postData_same
        openai_body_fields)

text \<open>
  Claim C8, as the program has it.  When the \<open>user\<close> parameter is a well-formed string,
  the \<open>user\<close> member that \<open>callOpenAI\<close> and \<open>callOpenRouter\<close> send is its Base64 text, and
  decoding that text gives the parameter back unit for unit.
\<close>

theorem well_formed_user_round_trips:
  assumes "well_formed s" and "user params = Some s"
  shows "field (body (callOpenAI_request params)) (js ''user'')
           = Inr (Str (Buffer_from_toString_base64 s))
    \<and> field (body (callOpenRouter_request params)) (js ''user'')
           = Inr (Str (Buffer_from_toString_base64 s))
    \<and> decode_user (Buffer_from_toString_base64 s) = Some s"
  using assms by (simp add: user_sent decode_user_roundtrip)

lemma encode_lone_surrogate: "Buffer_from_toString_base64 [0xD800] = js ''77+9''"
  by (simp add: Buffer_from_toString_base64_def is_high_def is_low_def replacement_def
        base64_char_def js_def)

lemma encode_replacement_character: "Buffer_from_toString_base64 [0xFFFD] = js ''77+9''"
  by (simp add: Buffer_from_toString_base64_def is_high_def is_low_def utf8_code_point_def
        base64_char_def js_def)

lemma decode_replacement_character: "decode_user (js ''77+9'') = Some [0xFFFD]"
  by (simp add: decode_user_def js_def base64_index_def pad_def Let_def)

lemma example_user_well_formed: "well_formed (js ''test-user-123'')"
  by (simp add: js_def is_high_def is_low_def)

lemma example_user_encoded:
  "Buffer_from_toString_base64 (js ''test-user-123'') = js ''dGVzdC11c2VyLTEyMw==''"
  by (simp add: Buffer_from_toString_base64_def is_high_def is_low_def utf8_code_point_def
        base64_char_def js_def pad_def)

theorem well_formed_user_round_trips_witness:
  "well_formed (js ''test-user-123'')
   \<and> user (example_params (js ''openai'')) = Some (js ''test-user-123'')
   \<and> field (body (callOpenAI_request (example_params (js ''openai'')))) (js ''user'')
       = Inr (Str (js ''dGVzdC11c2VyLTEyMw==''))
   \<and> field (body (callOpenRouter_request (example_params (js ''openai'')))) (js ''user'')
       = Inr (Str (js ''dGVzdC11c2VyLTEyMw==''))
   \<and> decode_user (js ''dGVzdC11c2VyLTEyMw=='') = Some (js ''test-user-123'')"
proof -
  have u: "user (example_params (js ''openai'')) = Some (js ''test-user-123'')"
    by (simp add: example_params_def)
  show ?thesis
    using well_formed_user_round_trips [OF example_user_well_formed u] example_user_well_formed u
    by (simp add: example_user_encoded)
qed

text \<open>
  Claim C8 as it is worded, for every string, fails: the encoding loses a surrogate
  code unit that is not part of a pair.  The lone surrogate \<open>D800\<close> is sent as \<open>77+9\<close>,
  which is also the text sent for U+FFFD, and decoding gives U+FFFD.
\<close>

theorem lone_surrogate_user_is_not_recovered:
  "field (body (callOpenAI_request (params_with_user (js ''openai'') [0xD800]))) (js ''user'')
     = Inr (Str (js ''77+9''))
   \<and> field (body (callOpenRouter_request (params_with_user (js ''openrouter'') [0xD800])))
       (js ''user'')
     = Inr (Str (js ''77+9''))
   \<and> field (body (callOpenAI_request (params_with_user (js ''openai'') [0xFFFD]))) (js ''user'')
     = Inr (Str (js ''77+9''))
   \<and> decode_user (js ''77+9'') = Some [0xFFFD]
   \<and> decode_user (js ''77+9'') \<noteq> Some [0xD800]"
  by (simp add: user_sent params_with_user_def encode_lone_surrogate encode_replacement_character
        decode_replacement_character)

end
